theory Spec2Isabelle
  imports Main "HOL-Library.Sublist"
begin

section \<open>Python strings\<close>

text \<open>
  A Python \<open>str\<close> is modelled as a \<open>string\<close>; a \<open>char\<close> stands for a code point
  below 256, so \<open>length\<close> counts what Python's \<open>len\<close> counts on such strings.
\<close>

text \<open>\<open>str.lower()\<close> on one code point below 256: the letters A-Z and the upper-case
  Latin-1 letters (192-222 without the multiplication sign 215) move up by 32. In all of
  them the bit of value 32 is clear, so adding 32 is setting that bit.\<close>

definition lower_char :: "char \<Rightarrow> char" where
  "lower_char c =
     (let n = (of_char c :: nat)
      in if (65 \<le> n \<and> n \<le> 90) \<or> (192 \<le> n \<and> n \<le> 222 \<and> n \<noteq> 215)
         then (case c of Char b0 b1 b2 b3 b4 b5 b6 b7 \<Rightarrow> Char b0 b1 b2 b3 b4 True b6 b7)
         else c)"

definition lower :: "string \<Rightarrow> string" where
  "lower s = map lower_char s"

text \<open>\<open>sub in s\<close> on strings: \<open>sub\<close> occurs in \<open>s\<close> as a contiguous block.\<close>

fun str_in :: "string \<Rightarrow> string \<Rightarrow> bool" where
  "str_in sub [] = (sub = [])"
| "str_in sub (c # cs) = (prefix sub (c # cs) \<or> str_in sub cs)"

text \<open>\<open>str.isspace()\<close> on one code point below 256, and \<open>str.strip()\<close>.\<close>

definition isspace :: "char \<Rightarrow> bool" where
  "isspace c =
     (let n = (of_char c :: nat)
      in (9 \<le> n \<and> n \<le> 13) \<or> (28 \<le> n \<and> n \<le> 32) \<or> n = 133 \<or> n = 160)"

definition strip :: "string \<Rightarrow> string" where
  "strip s = rev (dropWhile isspace (rev (dropWhile isspace s)))"

definition startswith :: "string \<Rightarrow> string \<Rightarrow> bool" where
  "startswith s p = prefix p s"

text \<open>\<open>line.split('=', 1)\<close>: at most one split, at the first \<open>=\<close>.\<close>

definition split_eq1 :: "string \<Rightarrow> string list" where
  "split_eq1 line =
     (if CHR ''='' \<in> set line
      then [takeWhile (\<lambda>c. c \<noteq> CHR ''='') line, tl (dropWhile (\<lambda>c. c \<noteq> CHR ''='') line)]
      else [line])"

subsection \<open>Decimal integers: \<open>str(n)\<close> and \<open>int(s)\<close>\<close>

definition digit_char :: "nat \<Rightarrow> char" where
  "digit_char d = ''0123456789'' ! d"

definition isdigit :: "char \<Rightarrow> bool" where
  "isdigit c = (48 \<le> (of_char c :: nat) \<and> (of_char c :: nat) \<le> 57)"

definition digit_val :: "char \<Rightarrow> nat" where
  "digit_val c = of_char c - 48"

fun str_nat :: "nat \<Rightarrow> string" where
  "str_nat n = (if n < 10 then [digit_char n] else str_nat (n div 10) @ [digit_char (n mod 10)])"

declare str_nat.simps [simp del]

text \<open>\<open>str(i)\<close> for a Python int.\<close>

definition str_int :: "int \<Rightarrow> string" where
  "str_int i = (if i < 0 then CHR ''-'' # str_nat (nat (- i)) else str_nat (nat i))"

text \<open>
  The digits of an integer literal accepted by \<open>int(s)\<close>: decimal digits, with single
  underscores allowed between digits. The value reads the digits from the left.
\<close>

definition int_digits :: "string \<Rightarrow> nat option" where
  "int_digits ds =
     (if ds \<noteq> [] \<and> isdigit (hd ds) \<and> isdigit (last ds)
         \<and> list_all (\<lambda>c. isdigit c \<or> c = CHR ''_'') ds \<and> \<not> str_in ''__'' ds
      then Some (foldl (\<lambda>a c. 10 * a + digit_val c) 0 (filter isdigit ds))
      else None)"

text \<open>
  \<open>int(s)\<close>: surrounding whitespace is dropped, one sign is allowed; \<open>None\<close> stands
  for ValueError. Python's ints are unbounded, so is the result.
\<close>

definition py_int :: "string \<Rightarrow> int option" where
  "py_int s =
     (case strip s of
        [] \<Rightarrow> None
      | c # cs \<Rightarrow>
          if c = CHR ''-'' then map_option (\<lambda>n. - int n) (int_digits cs)
          else if c = CHR ''+'' then map_option int (int_digits cs)
          else map_option int (int_digits (c # cs)))"

subsection \<open>Reading a text file by lines\<close>

text \<open>Text mode translates \<open>\r\n\<close> and \<open>\r\<close> to \<open>\n\<close>; \<open>readlines\<close> cuts after each
  \<open>\n\<close> and keeps it.\<close>

fun universal_newlines :: "string \<Rightarrow> string" where
  "universal_newlines [] = []"
| "universal_newlines [c] = [if c = CHR 0x0D then CHR 0x0A else c]"
| "universal_newlines (c # d # cs) =
     (if c = CHR 0x0D \<and> d = CHR 0x0A then CHR 0x0A # universal_newlines cs
      else if c = CHR 0x0D then CHR 0x0A # universal_newlines (d # cs)
      else c # universal_newlines (d # cs))"

fun split_lines :: "string \<Rightarrow> string list" where
  "split_lines [] = []"
| "split_lines (c # cs) =
     (if c = CHR 0x0A then [c] # split_lines cs
      else (case split_lines cs of [] \<Rightarrow> [[c]] | l # ls \<Rightarrow> (c # l) # ls))"

definition readlines :: "string \<Rightarrow> string list" where
  "readlines content = split_lines (universal_newlines content)"

section \<open>Alias resolution (mcp_server.py)\<close>

text \<open>The three module-level values read from the environment when the module loads.\<close>

record config =
  PREFERRED_PROVIDER :: string
  BIG_MODEL :: string
  SMALL_MODEL :: string

definition environ_get :: "(string \<rightharpoonup> string) \<Rightarrow> string \<Rightarrow> string \<Rightarrow> string" where
  "environ_get env k d = (case env k of None \<Rightarrow> d | Some v \<Rightarrow> v)"

definition load_config :: "(string \<rightharpoonup> string) \<Rightarrow> config" where
  "load_config env =
     \<lparr> PREFERRED_PROVIDER = lower (environ_get env ''PREFERRED_PROVIDER'' ''openai''),
       BIG_MODEL = environ_get env ''BIG_MODEL'' ''gpt-4.1'',
       SMALL_MODEL = environ_get env ''SMALL_MODEL'' ''gpt-4.1-mini'' \<rparr>"

text \<open>The values when the environment sets none of the three variables.\<close>

definition default_config :: config where
  "default_config = load_config Map.empty"

definition get_mapped_model :: "config \<Rightarrow> string \<Rightarrow> string" where
  "get_mapped_model cfg model_alias =
     (if str_in ''haiku'' (lower model_alias) then
        (if PREFERRED_PROVIDER cfg = ''google'' then ''gemini/'' @ SMALL_MODEL cfg
         else ''openai/'' @ SMALL_MODEL cfg)
      else if str_in ''sonnet'' (lower model_alias) then
        (if PREFERRED_PROVIDER cfg = ''google'' then ''gemini/'' @ BIG_MODEL cfg
         else ''openai/'' @ BIG_MODEL cfg)
      else model_alias)"

section \<open>The process supervisor (cli.py)\<close>

subsection \<open>The host and the state of a command\<close>

text \<open>
  What reaches the console, in order. The texts that the program composes itself are
  recorded as it hands them over (\<open>ERROR\<close> lines go to the error console, \<open>PLAIN\<close> is
  a bare \<open>console.print\<close>). A line of the settings file is text of the user's, and
  \<open>console.print\<close> reads console markup in it: \<open>SHOWN\<close> holds what is written for
  such a line.
\<close>

datatype msg = RULE string | INFO string | SUCCESS string | WARNING string | ERROR string
  | PLAIN string | SHOWN string

text \<open>
  What \<open>console.print\<close> (of the library rich, markup on) makes of a text: it writes a
  rendering of it, in which markup tags are taken out, or it raises MarkupError, as for a
  closing tag that closes nothing.
\<close>

datatype render_result = Rendered string | MarkupError

text \<open>
  \<open>os.kill(pid, sig)\<close> either delivers the signal, or raises ProcessLookupError, or
  raises something else (PermissionError, OverflowError, ...) named by the string.
\<close>

datatype kill_result = Signalled | ProcessLookupError | OtherKillError string

text \<open>
  How a \<open>subprocess.run\<close> call ends: it returns, or raises CalledProcessError (with
  \<open>str(e)\<close> and \<open>e.stderr\<close>; possible under \<open>check=True\<close>), KeyboardInterrupt, or
  another exception named by the string.
\<close>

datatype run_result = Completed | CalledProcessError string string | KeyboardInterrupt
  | OtherException string

text \<open>Calls that reach outside the program, recorded in the order they are made.\<close>

datatype event = Subprocess_run "string list" | Subprocess_Popen "string list"
  | Os_kill int nat | Time_sleep nat

text \<open>How a command ends: it returns, calls \<open>sys.exit(n)\<close>, or an exception escapes.\<close>

datatype outcome = Returned | SysExit nat | Raised string

text \<open>
  The answers of the operating system during one invocation, which the commands only
  read: the settings file that \<open>find_dotenv\<close> locates (\<open>None\<close>: there is none), whether
  \<open>.venv\<close> is a directory, what a signal to a PID yields, how each external program
  run ends, what \<open>Popen\<close> yields (\<open>Inl\<close> the text of the exception, \<open>Inr\<close> the new PID),
  what the launched server has written to its redirected output by the time the command
  ends, whether \<open>claude\<close> is on the PATH, \<open>str(LOG_FILE)\<close>, and what the console makes
  of a text of the settings file.
\<close>

record host =
  dotenv_file :: "string option"
  venv_isdir :: bool
  os_kill :: "int \<Rightarrow> kill_result"
  subprocess_run :: "string list \<Rightarrow> run_result"
  subprocess_Popen :: "string list \<Rightarrow> string + int"
  server_output :: string
  which_claude :: bool
  log_path :: string
  rich_render :: "string \<Rightarrow> render_result"

text \<open>
  What the commands change: the two files of the supervisor (\<open>None\<close>: the file does not
  exist), the calls made so far and the lines printed so far.
\<close>

record state =
  pid_file :: "string option"
  log_file :: "string option"
  events :: "event list"
  console :: "msg list"

definition emit :: "msg \<Rightarrow> state \<Rightarrow> state" where
  "emit m w = w\<lparr>console := console w @ [m]\<rparr>"

definition print_info :: "string \<Rightarrow> state \<Rightarrow> state" where
  "print_info message w = emit (INFO message) w"

definition print_success :: "string \<Rightarrow> state \<Rightarrow> state" where
  "print_success message w = emit (SUCCESS message) w"

definition print_warning :: "string \<Rightarrow> state \<Rightarrow> state" where
  "print_warning message w = emit (WARNING message) w"

definition print_error :: "string \<Rightarrow> state \<Rightarrow> state" where
  "print_error message w = emit (ERROR message) w"

definition console_print :: "string \<Rightarrow> state \<Rightarrow> state" where
  "console_print text w = emit (PLAIN text) w"

definition console_rule :: "string \<Rightarrow> state \<Rightarrow> state" where
  "console_rule title w = emit (RULE title) w"

definition record_event :: "event \<Rightarrow> state \<Rightarrow> state" where
  "record_event e w = w\<lparr>events := events w @ [e]\<rparr>"

definition SIGTERM :: nat where
  "SIGTERM = 15"

subsection \<open>is_server_really_running\<close>

text \<open>
  The result is \<open>Inr b\<close> when the function returns \<open>b\<close> and \<open>Inl e\<close> when the exception
  \<open>e\<close> escapes it: the handler names ValueError, FileNotFoundError and
  ProcessLookupError only.
\<close>

definition is_server_really_running :: "host \<Rightarrow> state \<Rightarrow> (string + bool) \<times> state" where
  "is_server_really_running h s =
     (case pid_file s of
        None \<Rightarrow> (Inr False, s)
      | Some content \<Rightarrow>
          (case py_int (strip content) of
             None \<Rightarrow>
               (Inr False,
                (print_warning ''Stale PID file found. Cleaning up.'' s)\<lparr>pid_file := None\<rparr>)
           | Some pid \<Rightarrow>
               (let s1 = record_event (Os_kill pid 0) s
                in case os_kill h pid of
                     Signalled \<Rightarrow> (Inr True, s1)
                   | ProcessLookupError \<Rightarrow>
                       (Inr False,
                        (print_warning ''Stale PID file found. Cleaning up.'' s1)
                          \<lparr>pid_file := None\<rparr>)
                   | OtherKillError e \<Rightarrow> (Inl e, s1))))"

subsection \<open>status\<close>

text \<open>The text that the body of the loop over the lines of the settings file hands to
  \<open>console.print\<close>: \<open>None\<close> when the line is skipped. For a line without \<open>=\<close> the
  unpacking raises ValueError and the handler prints the line.\<close>

definition display_line :: "string \<Rightarrow> string option" where
  "display_line raw =
     (let line = strip raw
      in if line = [] \<or> startswith line ''#'' then None
         else (case split_eq1 line of
                 [key, val] \<Rightarrow>
                   if str_in ''API_KEY'' key \<and> length val > 8
                   then Some (key @ ''='' @ [CHR 0x27] @ take 4 val @ ''...''
                              @ drop (length val - 4) val @ [CHR 0x27])
                   else Some line
               | _ \<Rightarrow> Some line))"

text \<open>
  The loop itself. MarkupError is not a ValueError, so when \<open>console.print\<close> raises it,
  in the \<open>try\<close> block or in the handler, it leaves the loop and \<open>status\<close>: the
  lines after it are not read.
\<close>

fun print_lines :: "host \<Rightarrow> string list \<Rightarrow> state \<Rightarrow> outcome \<times> state" where
  "print_lines h [] s = (Returned, s)"
| "print_lines h (raw # rest) s =
     (case display_line raw of
        None \<Rightarrow> print_lines h rest s
      | Some text \<Rightarrow>
          (case rich_render h text of
             MarkupError \<Rightarrow> (Raised ''MarkupError'', s)
           | Rendered shown \<Rightarrow> print_lines h rest (emit (SHOWN shown) s)))"

text \<open>The second half of \<open>status\<close>, from the heading "Configuration" on.\<close>

definition show_configuration :: "host \<Rightarrow> state \<Rightarrow> outcome \<times> state" where
  "show_configuration h s =
     (let s1 = console_print (CHR 0x0A # ''[bold]Configuration[/bold]'') s
      in case dotenv_file h of
           None \<Rightarrow>
             (Returned, print_warning ''No .env file found. Run 'ccp init' to create one.'' s1)
         | Some content \<Rightarrow>
             (let lines = readlines content
              in if lines = []
                 then (Returned,
                       print_warning
                         (CHR 0x27 # ''.env' file is empty. Run 'ccp init' to configure.'') s1)
                 else print_lines h lines s1))"

definition status :: "host \<Rightarrow> state \<Rightarrow> outcome \<times> state" where
  "status h s =
     (let s0 = console_print ''[bold]Server Status[/bold]''
                 (console_rule ''[bold]Claude Code Plus Status[/bold]'' s)
      in case is_server_really_running h s0 of
           (Inl e, s1) \<Rightarrow> (Raised e, s1)
         | (Inr True, s1) \<Rightarrow>
             (case pid_file s1 of
                None \<Rightarrow> (Raised ''FileNotFoundError'', s1)
              | Some content \<Rightarrow>
                  (case py_int (strip content) of
                     None \<Rightarrow> (Raised ''ValueError'', s1)
                   | Some pid \<Rightarrow>
                       (let s2 = print_success (''Running (PID: '' @ str_int pid @ '')'') s1;
                            s3 = console_print ''Address: http://localhost:8082'' s2;
                            s4 = (if log_file s3 \<noteq> None
                                  then console_print (''Log File: '' @ log_path h) s3 else s3)
                        in show_configuration h s4)))
         | (Inr False, s1) \<Rightarrow> show_configuration h (print_info ''Stopped'' s1))"

subsection \<open>start\<close>

definition venv_dir :: string where
  "venv_dir = ''.venv''"

definition command :: "string list" where
  "command = [venv_dir @ ''/bin/uvicorn'', ''src.ccp.server:app'', ''--host'', ''0.0.0.0'',
              ''--port'', ''8082'']"

text \<open>Dependency installation, the second step of the setup in the \<open>else\<close> branch:
  \<open>Returned\<close> means that control goes on to the launch.\<close>

definition install_dependencies :: "host \<Rightarrow> state \<Rightarrow> outcome \<times> state" where
  "install_dependencies h s =
     (let argv = [venv_dir @ ''/bin/pip'', ''install'', ''-e'', ''.''];
          s1 = record_event (Subprocess_run argv)
                 (print_info ''Installing/updating dependencies...'' s)
      in case subprocess_run h argv of
           Completed \<Rightarrow> (Returned, print_success ''Dependencies are up to date.'' s1)
         | CalledProcessError t err \<Rightarrow>
             (SysExit 1, print_error (''Failed to install dependencies: '' @ err) s1)
         | KeyboardInterrupt \<Rightarrow> (Raised ''KeyboardInterrupt'', s1)
         | OtherException e \<Rightarrow> (Raised e, s1))"

text \<open>The whole setup: the virtual environment is created when \<open>.venv\<close> is not a
  directory, then the dependencies are installed.\<close>

definition setup_environment :: "host \<Rightarrow> state \<Rightarrow> outcome \<times> state" where
  "setup_environment h s =
     (if \<not> venv_isdir h then
        (let argv = [''python3'', ''-m'', ''venv'', venv_dir];
             s1 = record_event (Subprocess_run argv)
                    (print_warning ''Virtual environment not found. Creating one...'' s)
         in case subprocess_run h argv of
              Completed \<Rightarrow>
                install_dependencies h
                  (print_success (''Virtual environment created at ''
                                  @ [CHR 0x27] @ venv_dir @ [CHR 0x27] @ ''.'') s1)
            | CalledProcessError t err \<Rightarrow>
                (SysExit 1, print_error (''Failed to create virtual environment: '' @ t) s1)
            | KeyboardInterrupt \<Rightarrow> (Raised ''KeyboardInterrupt'', s1)
            | OtherException e \<Rightarrow> (Raised e, s1))
      else install_dependencies h s)"

definition connect_hint :: "state \<Rightarrow> state" where
  "connect_hint s =
     console_print
       (CHR 0x0A # ''    [bold cyan]ANTHROPIC_BASE_URL=http://localhost:8082 claude[/bold cyan]''
        @ [CHR 0x0A])
       (print_info ''Run the following command in a new terminal to connect your client:'' s)"

text \<open>The foreground branch.\<close>

definition run_foreground :: "host \<Rightarrow> state \<Rightarrow> outcome \<times> state" where
  "run_foreground h s =
     (let argv = command @ [''--reload'', ''--reload-dir'', ''src''];
          s1 = record_event (Subprocess_run argv)
                 (connect_hint (print_info ''Starting server in foreground...'' s))
      in case subprocess_run h argv of
           Completed \<Rightarrow> (Returned, s1)
         | KeyboardInterrupt \<Rightarrow>
             (Returned, print_info (CHR 0x0A # ''Server stopped by user.'') s1)
         | CalledProcessError t err \<Rightarrow>
             (SysExit 1, print_error (''Failed to start server: '' @ t) s1)
         | OtherException e \<Rightarrow>
             (SysExit 1, print_error (''Failed to start server: '' @ e) s1))"

text \<open>
  The background branch. \<open>open(LOG_FILE, "wb")\<close> creates the log file or cuts it to
  length zero before \<open>Popen\<close> is called; when \<open>Popen\<close> succeeds the file then holds what
  the new server writes.
\<close>

definition run_background :: "host \<Rightarrow> state \<Rightarrow> outcome \<times> state" where
  "run_background h s =
     (let s1 = (print_info ''Starting server in background...'' s)\<lparr>log_file := Some []\<rparr>;
          s2 = record_event (Subprocess_Popen command) s1
      in case subprocess_Popen h command of
           Inl e \<Rightarrow>
             (SysExit 1, print_error (''Failed to start server in background: '' @ e) s2)
         | Inr pid \<Rightarrow>
             (let s3 = s2\<lparr>log_file := Some (server_output h),
                          pid_file := Some (str_int pid)\<rparr>;
                  s4 = print_success
                         (''Server started in background with PID: '' @ str_int pid) s3;
                  s5 = print_info ''Server is running at: http://localhost:8082''
                         (connect_hint s4);
                  s6 = print_info (''Logs are being written to: '' @ log_path h) s5
              in (Returned,
                  print_info
                    ''Use 'ccp logs' to view logs or 'ccp stop' to stop the server.'' s6)))"

text \<open>The \<open>if auto:\<close> block at the end.\<close>

definition launch_client :: "host \<Rightarrow> state \<Rightarrow> outcome \<times> state" where
  "launch_client h s =
     (let s1 = record_event (Time_sleep 2) (print_info ''Launching Claude Code client...'' s)
      in if \<not> which_claude h then
           (SysExit 1,
            print_info ''The server is still running. Use 'ccp stop' to stop it.''
              (print_info
                 ''Please ensure you have run 'npm install -g @anthropic-ai/claude-code'.''
                 (print_error ''The 'claude' command was not found in your PATH.'' s1)))
         else
           (let s2 = record_event (Subprocess_run [''claude'']) s1;
                s3 = (case subprocess_run h [''claude''] of
                        Completed \<Rightarrow> s2
                      | KeyboardInterrupt \<Rightarrow>
                          print_info (CHR 0x0A # ''Claude Code client stopped by user.'') s2
                      | CalledProcessError t err \<Rightarrow>
                          print_error (''Claude Code client exited with an error: '' @ t) s2
                      | OtherException e \<Rightarrow>
                          print_error (''Failed to launch Claude Code client: '' @ e) s2)
            in (Returned,
                print_info ''Run 'ccp stop' to shut it down.''
                  (print_info ''The proxy server is still running in the background.'' s3))))"

definition start :: "bool \<Rightarrow> bool \<Rightarrow> host \<Rightarrow> state \<Rightarrow> outcome \<times> state" where
  "start foreground auto h s =
     (let s0 = console_rule ''[bold]Starting Server[/bold]'' s
      in if foreground \<and> auto then
           (SysExit 1,
            print_error ''The --foreground and --auto flags cannot be used together.'' s0)
         else
           (case is_server_really_running h s0 of
              (Inl e, s1) \<Rightarrow> (Raised e, s1)
            | (Inr True, s1) \<Rightarrow>
                if \<not> auto then
                  (case status h
                          (print_info ''Server is already running. Displaying status:'' s1) of
                     (Returned, s2) \<Rightarrow> (SysExit 0, s2)
                   | (r, s2) \<Rightarrow> (r, s2))
                else launch_client h s1
            | (Inr False, s1) \<Rightarrow>
                (case setup_environment h s1 of
                   (Returned, s2) \<Rightarrow>
                     if foreground then run_foreground h s2
                     else (case run_background h s2 of
                             (Returned, s3) \<Rightarrow>
                               if auto then launch_client h s3 else (Returned, s3)
                           | (r, s3) \<Rightarrow> (r, s3))
                 | (r, s2) \<Rightarrow> (r, s2))))"

subsection \<open>stop\<close>

text \<open>The \<open>finally\<close> clause of \<open>stop\<close>.\<close>

definition stop_finally :: "state \<Rightarrow> state" where
  "stop_finally s =
     print_success ''Server stopped and PID file removed.'' (s\<lparr>pid_file := None\<rparr>)"

definition stop :: "host \<Rightarrow> state \<Rightarrow> outcome \<times> state" where
  "stop h s =
     (let s0 = console_rule ''[bold]Stopping Server[/bold]'' s
      in case pid_file s0 of
           None \<Rightarrow>
             (SysExit 1, print_warning ''PID file not found. Is the server running?'' s0)
         | Some content \<Rightarrow>
             (case py_int (strip content) of
                None \<Rightarrow>
                  (SysExit 1,
                   (print_error ''Could not read PID from file. It might be corrupted.'' s0)
                     \<lparr>pid_file := None\<rparr>)
              | Some pid \<Rightarrow>
                  (let s1 = record_event (Os_kill pid SIGTERM) s0
                   in case os_kill h pid of
                        Signalled \<Rightarrow>
                          (Returned,
                           stop_finally
                             (print_info
                                (''Sent stop signal to process with PID: '' @ str_int pid) s1))
                      | ProcessLookupError \<Rightarrow>
                          (Returned,
                           stop_finally
                             (print_warning
                                (''Process with PID '' @ str_int pid
                                 @ '' not found. It may have already stopped.'') s1))
                      | OtherKillError e \<Rightarrow>
                          (SysExit 1,
                           stop_finally (print_error (''Failed to stop server: '' @ e) s1)))))"

subsection \<open>A host and a state for examples\<close>

text \<open>A host without a settings file on which every external program succeeds, no
  process answers a signal, \<open>Popen\<close> yields the PID 4242 and the console writes every
  text as it is; and the state of a fresh working directory.\<close>

definition quiet_host :: host where
  "quiet_host =
     \<lparr> dotenv_file = None, venv_isdir = True, os_kill = (\<lambda>pid. ProcessLookupError),
       subprocess_run = (\<lambda>argv. Completed), subprocess_Popen = (\<lambda>argv. Inr 4242),
       server_output = ''INFO: Started server process'', which_claude = True,
       log_path = ''/srv/app/.ccp.log'', rich_render = Rendered \<rparr>"

definition fresh_state :: state where
  "fresh_state = \<lparr> pid_file = None, log_file = None, events = [], console = [] \<rparr>"

text \<open>A host on which \<open>os.kill\<close> raises OverflowError for a PID outside the range of a C
  \<open>int\<close>, as the conversion of the argument does, and finds no process otherwise.\<close>

definition c_int_host :: host where
  "c_int_host =
     quiet_host\<lparr>os_kill :=
       (\<lambda>pid. if - 2147483648 \<le> pid \<and> pid \<le> 2147483647 then ProcessLookupError
              else OtherKillError ''OverflowError'')\<rparr>"

text \<open>A host on which the process 4242 is alive.\<close>

definition live_host :: host where
  "live_host =
     quiet_host\<lparr>os_kill := (\<lambda>pid. if pid = 4242 then Signalled else ProcessLookupError)\<rparr>"

text \<open>
  A host with a settings file of three lines: the OpenAI key as \<open>ccp init\<close> stores it
  (\<open>set_key\<close> puts the value between single quotes), a line without \<open>=\<close> that holds
  the closing tag \<open>[/bold]\<close>, and the big model. On the texts of this file the console
  raises MarkupError for the closing tag, which closes nothing, and writes a text
  without a tag as it is.
\<close>

definition settings_host :: host where
  "settings_host =
     quiet_host\<lparr>dotenv_file :=
       Some (''OPENAI_API_KEY='' @ [CHR 0x27] @ ''sk-0123456789abcdefghijklmnopqrs''
             @ [CHR 0x27, CHR 0x0A]
             @ ''see [/bold] note'' @ [CHR 0x0A]
             @ ''BIG_MODEL=gpt-4.1'' @ [CHR 0x0A]),
       rich_render := (\<lambda>text. if str_in ''[/bold]'' text then MarkupError else Rendered text)\<rparr>"

section \<open>Facts about the string functions\<close>

lemma str_in_iff_sublist: "str_in sub s \<longleftrightarrow> sublist sub s"
  by (induction s) (auto simp: sublist_Cons_right)

subsection \<open>\<open>int(str(n))\<close> gives \<open>n\<close> back\<close>

lemma digit_char_facts:
  assumes "d < 10"
  shows "isdigit (digit_char d)" and "digit_val (digit_char d) = d"
    and "\<not> isspace (digit_char d)" and "digit_char d \<noteq> CHR ''-''"
    and "digit_char d \<noteq> CHR ''+''"
proof -
  from assms have "d = 0 \<or> d = 1 \<or> d = 2 \<or> d = 3 \<or> d = 4 \<or> d = 5 \<or> d = 6 \<or> d = 7
      \<or> d = 8 \<or> d = 9"
    by arith
  then show "isdigit (digit_char d)" and "digit_val (digit_char d) = d"
    and "\<not> isspace (digit_char d)" and "digit_char d \<noteq> CHR ''-''"
    and "digit_char d \<noteq> CHR ''+''"
    by (auto simp: digit_char_def isdigit_def digit_val_def isspace_def)
qed

lemma isdigit_facts:
  assumes "isdigit c"
  shows "\<not> isspace c" and "c \<noteq> CHR ''-''" and "c \<noteq> CHR ''+''" and "c \<noteq> CHR ''_''"
  using assms by (auto simp: isdigit_def isspace_def)

lemma str_nat_all_digits: "list_all isdigit (str_nat n)"
proof (induction n rule: str_nat.induct)
  case (1 n)
  show ?case
  proof (cases "n < 10")
    case True
    then show ?thesis by (simp add: str_nat.simps [of n] digit_char_facts)
  next
    case False
    with 1 show ?thesis by (simp add: str_nat.simps [of n] digit_char_facts)
  qed
qed

lemma str_nat_not_Nil: "str_nat n \<noteq> []"
  by (simp add: str_nat.simps [of n])

lemma str_nat_value: "foldl (\<lambda>a c. 10 * a + digit_val c) 0 (str_nat n) = n"
proof (induction n rule: str_nat.induct)
  case (1 n)
  show ?case
  proof (cases "n < 10")
    case True
    then show ?thesis by (simp add: str_nat.simps [of n] digit_char_facts)
  next
    case False
    then have "n mod 10 < 10" by simp
    with False 1 show ?thesis by (simp add: str_nat.simps [of n] digit_char_facts)
  qed
qed

lemma digits_no_double_underscore: "list_all isdigit ds \<Longrightarrow> \<not> str_in ''__'' ds"
  by (induction ds) (auto dest: isdigit_facts(4))

lemma strip_unchanged:
  assumes "s \<noteq> []" and "\<not> isspace (hd s)" and "\<not> isspace (last s)"
  shows "strip s = s"
proof -
  have "dropWhile isspace s = s"
    using assms by (simp add: dropWhile_eq_self_iff)
  moreover have "dropWhile isspace (rev s) = rev s"
    using assms by (simp add: dropWhile_eq_self_iff hd_rev)
  ultimately show ?thesis by (simp add: strip_def)
qed

lemma int_digits_all_digits:
  assumes "ds \<noteq> []" and "list_all isdigit ds"
  shows "int_digits ds = Some (foldl (\<lambda>a c. 10 * a + digit_val c) 0 ds)"
proof -
  have "isdigit (hd ds)" and "isdigit (last ds)"
    using assms by (simp_all add: list_all_iff)
  moreover have "list_all (\<lambda>c. isdigit c \<or> c = CHR ''_'') ds"
    using assms(2) by (simp add: list_all_iff)
  moreover have "filter isdigit ds = ds"
    using assms(2) by (simp add: list_all_iff)
  ultimately show ?thesis
    using assms digits_no_double_underscore [OF assms(2)] by (simp add: int_digits_def)
qed

lemma int_digits_str_nat: "int_digits (str_nat n) = Some n"
  by (simp add: int_digits_all_digits str_nat_not_Nil str_nat_all_digits str_nat_value)

lemma strip_str_int: "strip (str_int i) = str_int i"
proof (rule strip_unchanged)
  show "str_int i \<noteq> []" by (simp add: str_int_def str_nat_not_Nil)
  have hd_d: "isdigit (hd (str_nat n))" and last_d: "isdigit (last (str_nat n))" for n
    using str_nat_all_digits [of n] str_nat_not_Nil [of n] by (simp_all add: list_all_iff)
  show "\<not> isspace (hd (str_int i))"
  proof (cases "i < 0")
    case True
    then show ?thesis by (simp add: str_int_def isspace_def)
  next
    case False
    then show ?thesis using hd_d by (simp add: str_int_def isdigit_facts(1))
  qed
  show "\<not> isspace (last (str_int i))"
    using last_d by (simp add: str_int_def str_nat_not_Nil isdigit_facts(1))
qed

lemma py_int_str_int: "py_int (str_int i) = Some i"
proof (cases "i < 0")
  case True
  then show ?thesis
    by (simp add: py_int_def strip_str_int) (simp add: str_int_def int_digits_str_nat)
next
  case False
  obtain c cs where split: "str_nat (nat i) = c # cs"
    using str_nat_not_Nil [of "nat i"] by (cases "str_nat (nat i)") auto
  have "isdigit c"
    using str_nat_all_digits [of "nat i"] split by simp
  then have "c \<noteq> CHR ''-''" and "c \<noteq> CHR ''+''"
    by (auto dest: isdigit_facts)
  moreover have "int_digits (c # cs) = Some (nat i)"
    using int_digits_str_nat [of "nat i"] split by simp
  ultimately show ?thesis
    using False split by (simp add: py_int_def strip_str_int) (simp add: str_int_def)
qed

lemma read_back_pid: "py_int (strip (str_int i)) = Some i"
  by (simp add: strip_str_int py_int_str_int)

section \<open>Alias resolution: the claims\<close>

text \<open>
  C1, as stated, at a concrete input: the alias \<open>haiku-sonnet\<close> contains the marker
  \<open>sonnet\<close>, and with the default settings it is resolved to the small model, not to
  \<open>openai/gpt-4.1\<close>, the big model: the test for \<open>haiku\<close> comes first.
\<close>

theorem get_mapped_model_first_marker_wins:
  "str_in ''sonnet'' (lower ''haiku-sonnet'') \<and>
   get_mapped_model default_config ''haiku-sonnet'' = ''openai/gpt-4.1-mini'' \<and>
   get_mapped_model default_config ''haiku-sonnet'' \<noteq> ''openai/gpt-4.1''"
  by (simp add: get_mapped_model_def default_config_def load_config_def environ_get_def lower_def
      lower_char_def)

text \<open>
  C1, amended: an alias whose lower-case form contains \<open>haiku\<close> is resolved to
  prefix/SMALL_MODEL; one that contains \<open>sonnet\<close> and not \<open>haiku\<close> to prefix/BIG_MODEL;
  one that contains neither is returned unchanged. The prefix is \<open>gemini\<close> exactly when
  PREFERRED_PROVIDER (which the module stores in lower case) is \<open>google\<close>, and \<open>openai\<close>
  otherwise.
\<close>

theorem get_mapped_model_by_marker:
  "(str_in ''haiku'' (lower a) \<longrightarrow>
      get_mapped_model cfg a =
        (if PREFERRED_PROVIDER cfg = ''google'' then ''gemini'' else ''openai'')
        @ ''/'' @ SMALL_MODEL cfg) \<and>
   (str_in ''sonnet'' (lower a) \<and> \<not> str_in ''haiku'' (lower a) \<longrightarrow>
      get_mapped_model cfg a =
        (if PREFERRED_PROVIDER cfg = ''google'' then ''gemini'' else ''openai'')
        @ ''/'' @ BIG_MODEL cfg) \<and>
   (\<not> str_in ''haiku'' (lower a) \<and> \<not> str_in ''sonnet'' (lower a) \<longrightarrow>
      get_mapped_model cfg a = a)"
  by (simp add: get_mapped_model_def)

text \<open>The three cases of C1 (amended) at concrete aliases, one with the provider set to
  \<open>google\<close> and two with the default settings.\<close>

theorem get_mapped_model_by_marker_witness:
  "str_in ''haiku'' (lower ''Claude-3-HAIKU'') \<and>
   get_mapped_model \<lparr>PREFERRED_PROVIDER = ''google'', BIG_MODEL = ''gemini-2.5-pro'',
                      SMALL_MODEL = ''gemini-2.0-flash''\<rparr> ''Claude-3-HAIKU''
     = ''gemini/gemini-2.0-flash'' \<and>
   str_in ''sonnet'' (lower ''claude-Sonnet-4'') \<and> \<not> str_in ''haiku'' (lower ''claude-Sonnet-4'') \<and>
   get_mapped_model default_config ''claude-Sonnet-4'' = ''openai/gpt-4.1'' \<and>
   \<not> str_in ''haiku'' (lower ''gpt-4o'') \<and> \<not> str_in ''sonnet'' (lower ''gpt-4o'') \<and>
   get_mapped_model default_config ''gpt-4o'' = ''gpt-4o''"
  using get_mapped_model_by_marker [of "''Claude-3-HAIKU''"
          "\<lparr>PREFERRED_PROVIDER = ''google'', BIG_MODEL = ''gemini-2.5-pro'',
            SMALL_MODEL = ''gemini-2.0-flash''\<rparr>"]
        get_mapped_model_by_marker [of "''claude-Sonnet-4''" default_config]
        get_mapped_model_by_marker [of "''gpt-4o''" default_config]
  by (simp add: default_config_def load_config_def environ_get_def lower_def lower_char_def)

text \<open>
  C8: an alias whose lower-case form contains both \<open>haiku\<close> and \<open>sonnet\<close> is resolved
  to prefix/SMALL_MODEL: the small-model marker is tested first.
\<close>

theorem get_mapped_model_both_markers:
  "str_in ''haiku'' (lower a) \<and> str_in ''sonnet'' (lower a) \<Longrightarrow>
   get_mapped_model cfg a =
     (if PREFERRED_PROVIDER cfg = ''google'' then ''gemini'' else ''openai'')
     @ ''/'' @ SMALL_MODEL cfg"
  by (simp add: get_mapped_model_def)

text \<open>C8 at the alias \<open>Sonnet-or-Haiku\<close>, with PREFERRED_PROVIDER=Google in the
  environment.\<close>

theorem get_mapped_model_both_markers_witness:
  "str_in ''haiku'' (lower ''Sonnet-or-Haiku'') \<and> str_in ''sonnet'' (lower ''Sonnet-or-Haiku'') \<and>
   get_mapped_model (load_config (Map.empty(''PREFERRED_PROVIDER'' \<mapsto> ''Google'')))
     ''Sonnet-or-Haiku'' = ''gemini/gpt-4.1-mini''"
  using get_mapped_model_both_markers [of "''Sonnet-or-Haiku''"
          "load_config (Map.empty(''PREFERRED_PROVIDER'' \<mapsto> ''Google''))"]
  by (simp add: load_config_def environ_get_def lower_def lower_char_def)

section \<open>The supervisor: facts about the state\<close>

lemmas print_defs = print_info_def print_success_def print_warning_def print_error_def
  console_print_def console_rule_def

lemma emit_fields [simp]:
  "pid_file (emit m s) = pid_file s" "log_file (emit m s) = log_file s"
  "events (emit m s) = events s" "console (emit m s) = console s @ [m]"
  by (simp_all add: emit_def)

lemma record_event_fields [simp]:
  "pid_file (record_event e s) = pid_file s" "log_file (record_event e s) = log_file s"
  "events (record_event e s) = events s @ [e]" "console (record_event e s) = console s"
  by (simp_all add: record_event_def)

lemma stop_finally_fields [simp]:
  "pid_file (stop_finally s) = None" "log_file (stop_finally s) = log_file s"
  "events (stop_finally s) = events s"
  "console (stop_finally s) = console s @ [SUCCESS ''Server stopped and PID file removed.'']"
  by (simp_all add: stop_finally_def print_defs)

subsection \<open>The liveness check\<close>

lemma is_running_answer:
  "fst (is_server_really_running h s) =
     (case pid_file s of
        None \<Rightarrow> Inr False
      | Some content \<Rightarrow>
          (case py_int (strip content) of
             None \<Rightarrow> Inr False
           | Some pid \<Rightarrow>
               (case os_kill h pid of
                  Signalled \<Rightarrow> Inr True
                | ProcessLookupError \<Rightarrow> Inr False
                | OtherKillError e \<Rightarrow> Inl e)))"
  by (simp add: is_server_really_running_def Let_def
      split: option.splits kill_result.splits)

lemma is_running_answer_emit [simp]:
  "fst (is_server_really_running h (emit m s)) = fst (is_server_really_running h s)"
  by (simp add: is_running_answer)

lemma is_running_log_file [simp]:
  "log_file (snd (is_server_really_running h s)) = log_file s"
  by (simp add: is_server_really_running_def Let_def print_defs
      split: option.splits kill_result.splits)

lemma is_running_False_no_record:
  "fst (is_server_really_running h s) = Inr False \<Longrightarrow>
   pid_file (snd (is_server_really_running h s)) = None"
  by (simp add: is_server_really_running_def Let_def print_defs
      split: option.splits kill_result.splits)

lemma is_running_True_state:
  assumes "pid_file s = Some content" and "py_int (strip content) = Some pid"
    and "os_kill h pid = Signalled"
  shows "is_server_really_running h s = (Inr True, record_event (Os_kill pid 0) s)"
  using assms by (simp add: is_server_really_running_def Let_def)

subsection \<open>The setup\<close>

lemma install_dependencies_answer:
  "fst (install_dependencies h s) = fst (install_dependencies h s')"
  by (simp add: install_dependencies_def Let_def split: run_result.splits)

lemma setup_environment_answer:
  "fst (setup_environment h s) = fst (setup_environment h s')"
  using install_dependencies_answer
  by (simp add: setup_environment_def Let_def split: run_result.splits)

lemma install_dependencies_files [simp]:
  "pid_file (snd (install_dependencies h s)) = pid_file s"
  "log_file (snd (install_dependencies h s)) = log_file s"
  by (simp_all add: install_dependencies_def Let_def print_defs split: run_result.splits)

lemma setup_environment_files [simp]:
  "pid_file (snd (setup_environment h s)) = pid_file s"
  "log_file (snd (setup_environment h s)) = log_file s"
  by (simp_all add: setup_environment_def Let_def print_defs split: run_result.splits)

subsection \<open>The launch\<close>

lemma connect_hint_fields [simp]:
  "pid_file (connect_hint s) = pid_file s" "log_file (connect_hint s) = log_file s"
  "events (connect_hint s) = events s"
  by (simp_all add: connect_hint_def print_defs)

lemma run_background_failure:
  assumes "subprocess_Popen h command = Inl e"
  shows "fst (run_background h s) = SysExit 1"
    and "pid_file (snd (run_background h s)) = pid_file s"
    and "log_file (snd (run_background h s)) = Some []"
    and "events (snd (run_background h s)) = events s @ [Subprocess_Popen command]"
  using assms by (simp_all add: run_background_def Let_def print_defs)

lemma run_background_success:
  assumes "subprocess_Popen h command = Inr pid"
  shows "fst (run_background h s) = Returned"
    and "pid_file (snd (run_background h s)) = Some (str_int pid)"
    and "log_file (snd (run_background h s)) = Some (server_output h)"
    and "events (snd (run_background h s)) = events s @ [Subprocess_Popen command]"
  using assms by (simp_all add: run_background_def Let_def print_defs)

lemma launch_client_files [simp]:
  "pid_file (snd (launch_client h s)) = pid_file s"
  "log_file (snd (launch_client h s)) = log_file s"
  by (simp_all add: launch_client_def Let_def print_defs split: run_result.splits)

text \<open>What a background start does once it is known that no live server is recorded
  and that the setup succeeds: it reaches the launch with no record file and with the
  log file as it was.\<close>

lemma start_background_launch:
  assumes "fst (is_server_really_running h s) = Inr False"
    and "fst (setup_environment h s) = Returned"
  obtains s2 where "pid_file s2 = None" and "log_file s2 = log_file s"
    and "start False auto h s =
           (case run_background h s2 of
              (Returned, s3) \<Rightarrow> if auto then launch_client h s3 else (Returned, s3)
            | (r, s3) \<Rightarrow> (r, s3))"
proof -
  let ?s0 = "console_rule ''[bold]Starting Server[/bold]'' s"
  obtain r1 s1 where run: "is_server_really_running h ?s0 = (r1, s1)"
    by (cases "is_server_really_running h ?s0")
  have no_server: "fst (is_server_really_running h ?s0) = Inr False"
    using assms(1) by (simp add: console_rule_def)
  with run have r1: "r1 = Inr False" by simp
  obtain r2 s2 where su: "setup_environment h s1 = (r2, s2)"
    by (cases "setup_environment h s1")
  have "fst (setup_environment h s1) = Returned"
    using assms(2) setup_environment_answer [of h s1 s] by simp
  with su have r2: "r2 = Returned" by simp
  have s1: "s1 = snd (is_server_really_running h ?s0)"
    using run by simp
  have s2: "s2 = snd (setup_environment h s1)"
    using su by simp
  have "pid_file s1 = None"
    unfolding s1 using no_server by (rule is_running_False_no_record)
  then have "pid_file s2 = None"
    by (simp add: s2)
  moreover have "log_file s2 = log_file s"
    by (simp add: s2 s1 console_rule_def)
  moreover have "start False auto h s =
           (case run_background h s2 of
              (Returned, s3) \<Rightarrow> if auto then launch_client h s3 else (Returned, s3)
            | (r, s3) \<Rightarrow> (r, s3))"
    using run r1 su r2 by (simp add: start_def Let_def)
  ultimately show thesis by (rule that)
qed

subsection \<open>The configuration display\<close>

lemma print_lines_fields [simp]:
  "pid_file (snd (print_lines h ls s)) = pid_file s"
  "log_file (snd (print_lines h ls s)) = log_file s"
  "events (snd (print_lines h ls s)) = events s"
  by (induction ls arbitrary: s) (simp_all split: option.splits render_result.splits)

lemma print_lines_console:
  "\<exists>out. console (snd (print_lines h ls s)) = console s @ out"
proof (induction ls arbitrary: s)
  case Nil
  show ?case by simp
next
  case (Cons raw rest)
  show ?case
  proof (cases "display_line raw")
    case None
    then show ?thesis using Cons [of s] by simp
  next
    case (Some t)
    show ?thesis
    proof (cases "rich_render h t")
      case MarkupError
      with Some show ?thesis by simp
    next
      case (Rendered shown)
      from Cons [of "emit (SHOWN shown) s"]
      obtain out where "console (snd (print_lines h rest (emit (SHOWN shown) s)))
          = console s @ SHOWN shown # out"
        by auto
      with Some Rendered show ?thesis by simp
    qed
  qed
qed

text \<open>Whether the display raises depends on the host only.\<close>

lemma print_lines_answer: "fst (print_lines h ls s) = fst (print_lines h ls s')"
  by (induction ls arbitrary: s s') (auto split: option.splits render_result.splits)

lemma show_configuration_answer:
  "fst (show_configuration h s) = fst (show_configuration h s')"
  using print_lines_answer by (simp add: show_configuration_def Let_def split: option.splits)

lemma show_configuration_fields [simp]:
  "pid_file (snd (show_configuration h s)) = pid_file s"
  "log_file (snd (show_configuration h s)) = log_file s"
  "events (snd (show_configuration h s)) = events s"
  by (simp_all add: show_configuration_def Let_def print_defs split: option.splits)

lemma show_configuration_console:
  "\<exists>out. console (snd (show_configuration h s)) = console s @ out"
proof (cases "dotenv_file h")
  case None
  then show ?thesis by (simp add: show_configuration_def Let_def print_defs)
next
  case (Some content)
  let ?s1 = "emit (PLAIN (CHR 0x0A # ''[bold]Configuration[/bold]'')) s"
  obtain out where "console (snd (print_lines h (readlines content) ?s1)) = console ?s1 @ out"
    using print_lines_console by blast
  with Some show ?thesis by (simp add: show_configuration_def Let_def print_defs)
qed

text \<open>When the liveness check answers False, \<open>status\<close> prints Stopped and goes on to the
  configuration; the record file is gone and the log file is as it was.\<close>

lemma status_stopped:
  assumes "fst (is_server_really_running h s) = Inr False"
  shows "fst (status h s) = fst (show_configuration h s)"
    and "pid_file (snd (status h s)) = None"
    and "log_file (snd (status h s)) = log_file s"
    and "INFO ''Stopped'' \<in> set (drop (length (console s)) (console (snd (status h s))))"
proof -
  let ?s0 = "console_print ''[bold]Server Status[/bold]''
               (console_rule ''[bold]Claude Code Plus Status[/bold]'' s)"
  obtain r1 s1 where run: "is_server_really_running h ?s0 = (r1, s1)"
    by (cases "is_server_really_running h ?s0")
  have no_server: "fst (is_server_really_running h ?s0) = Inr False"
    using assms by (simp add: print_defs)
  with run have r1: "r1 = Inr False" by simp
  have s1: "s1 = snd (is_server_really_running h ?s0)"
    using run by simp
  have gone: "pid_file s1 = None"
    unfolding s1 using no_server by (rule is_running_False_no_record)
  have log: "log_file s1 = log_file s"
    by (simp add: s1 print_defs)
  have grows: "\<exists>mid. console s1 = console s @ mid"
    by (simp add: s1 is_server_really_running_def Let_def print_defs
        split: option.splits kill_result.splits)
  obtain out where conf: "console (snd (show_configuration h (print_info ''Stopped'' s1)))
      = console (print_info ''Stopped'' s1) @ out"
    using show_configuration_console by blast
  have st: "status h s = show_configuration h (print_info ''Stopped'' s1)"
    using run r1 by (simp add: status_def Let_def)
  show "fst (status h s) = fst (show_configuration h s)"
    unfolding st by (rule show_configuration_answer)
  show "pid_file (snd (status h s)) = None"
    using gone by (simp add: st print_defs)
  show "log_file (snd (status h s)) = log_file s"
    using log by (simp add: st print_defs)
  from grows obtain mid where "console s1 = console s @ mid" ..
  with conf
  show "INFO ''Stopped'' \<in> set (drop (length (console s)) (console (snd (status h s))))"
    by (simp add: st print_defs)
qed

subsection \<open>A start that finds the server running\<close>

lemma status_running:
  assumes "pid_file s = Some content" and "py_int (strip content) = Some pid"
    and "os_kill h pid = Signalled"
  shows "fst (status h s) = fst (show_configuration h s)"
    and "pid_file (snd (status h s)) = pid_file s"
    and "log_file (snd (status h s)) = log_file s"
    and "events (snd (status h s)) = events s @ [Os_kill pid 0]"
    and "\<exists>out. console (snd (status h s)) = console s @ out
           \<and> SUCCESS (''Running (PID: '' @ str_int pid @ '')'') \<in> set out"
proof -
  let ?s0 = "console_print ''[bold]Server Status[/bold]''
               (console_rule ''[bold]Claude Code Plus Status[/bold]'' s)"
  let ?s1 = "record_event (Os_kill pid 0) ?s0"
  let ?s3 = "console_print ''Address: http://localhost:8082''
               (print_success (''Running (PID: '' @ str_int pid @ '')'') ?s1)"
  let ?s4 = "if log_file ?s3 \<noteq> None
             then console_print (''Log File: '' @ log_path h) ?s3 else ?s3"
  have "pid_file ?s0 = Some content"
    using assms(1) by (simp add: print_defs)
  then have run: "is_server_really_running h ?s0 = (Inr True, ?s1)"
    using assms(2,3) by (rule is_running_True_state)
  have st: "status h s = show_configuration h ?s4"
    using run assms(1,2) by (simp add: status_def Let_def print_defs)
  show "fst (status h s) = fst (show_configuration h s)"
    unfolding st by (rule show_configuration_answer)
  show "pid_file (snd (status h s)) = pid_file s"
    by (simp add: st print_defs)
  show "log_file (snd (status h s)) = log_file s"
    by (simp add: st print_defs)
  show "events (snd (status h s)) = events s @ [Os_kill pid 0]"
    by (simp add: st print_defs)
  obtain out where "console (snd (show_configuration h ?s4)) = console ?s4 @ out"
    using show_configuration_console by blast
  then show "\<exists>out. console (snd (status h s)) = console s @ out
           \<and> SUCCESS (''Running (PID: '' @ str_int pid @ '')'') \<in> set out"
    by (simp add: st print_defs)
qed

lemma start_already_running:
  assumes "pid_file s = Some content" and "py_int (strip content) = Some pid"
    and "os_kill h pid = Signalled"
  shows "fst (start False False h s)
           = (case fst (show_configuration h s) of Returned \<Rightarrow> SysExit 0 | r \<Rightarrow> r)"
    and "pid_file (snd (start False False h s)) = pid_file s"
    and "log_file (snd (start False False h s)) = log_file s"
    and "events (snd (start False False h s)) = events s @ [Os_kill pid 0, Os_kill pid 0]"
    and "\<exists>out. console (snd (start False False h s)) = console s @ out
           \<and> INFO ''Server is already running. Displaying status:'' \<in> set out
           \<and> SUCCESS (''Running (PID: '' @ str_int pid @ '')'') \<in> set out"
proof -
  let ?s0 = "console_rule ''[bold]Starting Server[/bold]'' s"
  let ?s1 = "record_event (Os_kill pid 0) ?s0"
  let ?s2 = "print_info ''Server is already running. Displaying status:'' ?s1"
  have "pid_file ?s0 = Some content"
    using assms(1) by (simp add: print_defs)
  then have run: "is_server_really_running h ?s0 = (Inr True, ?s1)"
    using assms(2,3) by (rule is_running_True_state)
  have rec: "pid_file ?s2 = Some content"
    using assms(1) by (simp add: print_defs)
  note shown = status_running [OF rec assms(2,3)]
  obtain r3 s3 where st: "status h ?s2 = (r3, s3)"
    by (cases "status h ?s2")
  have r3: "r3 = fst (show_configuration h s)"
    using shown(1) st show_configuration_answer [of h ?s2 s] by simp
  have s3: "s3 = snd (status h ?s2)"
    using st by simp
  have res: "start False False h s = (case r3 of Returned \<Rightarrow> SysExit 0 | r \<Rightarrow> r, s3)"
    using run st by (simp add: start_def Let_def split: outcome.splits)
  show "fst (start False False h s)
           = (case fst (show_configuration h s) of Returned \<Rightarrow> SysExit 0 | r \<Rightarrow> r)"
    by (simp add: res r3)
  show "pid_file (snd (start False False h s)) = pid_file s"
    using shown(2) by (simp add: res s3 print_defs)
  show "log_file (snd (start False False h s)) = log_file s"
    using shown(3) by (simp add: res s3 print_defs)
  show "events (snd (start False False h s)) = events s @ [Os_kill pid 0, Os_kill pid 0]"
    using shown(4) by (simp add: res s3 print_defs)
  from shown(5) obtain out where "console (snd (status h ?s2)) = console ?s2 @ out"
    and "SUCCESS (''Running (PID: '' @ str_int pid @ '')'') \<in> set out"
    by blast
  then show "\<exists>out. console (snd (start False False h s)) = console s @ out
           \<and> INFO ''Server is already running. Displaying status:'' \<in> set out
           \<and> SUCCESS (''Running (PID: '' @ str_int pid @ '')'') \<in> set out"
    by (simp add: res s3 print_defs)
qed

text \<open>A default start returns normally only through a successful background launch,
  which has written the new PID to the record file.\<close>

lemma start_returned_record:
  assumes "start False False h s = (Returned, s1)"
  shows "\<exists>pid. subprocess_Popen h command = Inr pid \<and> pid_file s1 = Some (str_int pid)"
proof -
  let ?s0 = "console_rule ''[bold]Starting Server[/bold]'' s"
  obtain r1 t1 where run: "is_server_really_running h ?s0 = (r1, t1)"
    by (cases "is_server_really_running h ?s0")
  obtain r2 t2 where su: "setup_environment h t1 = (r2, t2)"
    by (cases "setup_environment h t1")
  obtain r3 t3 where rb: "run_background h t2 = (r3, t3)"
    by (cases "run_background h t2")
  have launched: "r1 = Inr False \<and> r2 = Returned \<and> r3 = Returned \<and> t3 = s1"
    using assms run su rb
    by (auto simp: start_def Let_def split: sum.splits bool.splits prod.splits outcome.splits)
  show ?thesis
  proof (cases "subprocess_Popen h command")
    case (Inl e)
    then show ?thesis
      using run_background_failure(1) [OF Inl, of t2] rb launched by simp
  next
    case (Inr pid)
    then show ?thesis
      using run_background_success(2) [OF Inr, of t2] rb launched by simp
  qed
qed


section \<open>stop: the claims\<close>

text \<open>
  C3: without a record file \<open>stop\<close> exits with status 1 after the warning that the PID
  file was not found, and changes nothing else (NotRunning). With a record whose content
  does not parse as an integer it prints the error about the corrupted file, deletes the
  record and exits with status 1 (CorruptState). Otherwise it sends SIGTERM to the parsed
  PID; when the signal is delivered, and when the process is already gone (a warning, not
  an error), it returns normally and the record file no longer exists.
\<close>

theorem stop_outcomes:
  "(pid_file s = None \<longrightarrow>
      stop h s = (SysExit 1,
                  s\<lparr>console := console s @ [RULE ''[bold]Stopping Server[/bold]'',
                       WARNING ''PID file not found. Is the server running?'']\<rparr>)) \<and>
   (pid_file s = Some content \<and> py_int (strip content) = None \<longrightarrow>
      stop h s = (SysExit 1,
                  s\<lparr>pid_file := None,
                    console := console s @ [RULE ''[bold]Stopping Server[/bold]'',
                       ERROR ''Could not read PID from file. It might be corrupted.'']\<rparr>)) \<and>
   (pid_file s = Some content \<and> py_int (strip content) = Some pid \<longrightarrow>
      events (snd (stop h s)) = events s @ [Os_kill pid SIGTERM] \<and>
      (os_kill h pid = Signalled \<longrightarrow>
         fst (stop h s) = Returned \<and> pid_file (snd (stop h s)) = None \<and>
         console (snd (stop h s)) = console s @ [RULE ''[bold]Stopping Server[/bold]'',
           INFO (''Sent stop signal to process with PID: '' @ str_int pid),
           SUCCESS ''Server stopped and PID file removed.'']) \<and>
      (os_kill h pid = ProcessLookupError \<longrightarrow>
         fst (stop h s) = Returned \<and> pid_file (snd (stop h s)) = None \<and>
         console (snd (stop h s)) = console s @ [RULE ''[bold]Stopping Server[/bold]'',
           WARNING (''Process with PID '' @ str_int pid
                    @ '' not found. It may have already stopped.''),
           SUCCESS ''Server stopped and PID file removed.'']))"
  by (simp add: stop_def Let_def print_defs emit_def record_event_def stop_finally_def
      split: kill_result.splits)

text \<open>C3 on a fresh directory, on a record holding \<open>not a pid\<close>, and on a record holding
  \<open>4242\<close> and a newline, first with a live process and then with a dead one.\<close>

theorem stop_outcomes_witness:
  "stop quiet_host fresh_state
     = (SysExit 1,
        fresh_state\<lparr>console := [RULE ''[bold]Stopping Server[/bold]'',
                                WARNING ''PID file not found. Is the server running?'']\<rparr>) \<and>
   py_int (strip ''not a pid'') = None \<and>
   stop quiet_host (fresh_state\<lparr>pid_file := Some ''not a pid''\<rparr>)
     = (SysExit 1,
        fresh_state\<lparr>console := [RULE ''[bold]Stopping Server[/bold]'',
                     ERROR ''Could not read PID from file. It might be corrupted.'']\<rparr>) \<and>
   py_int (strip (''4242'' @ [CHR 0x0A])) = Some 4242 \<and>
   fst (stop (quiet_host\<lparr>os_kill := (\<lambda>pid. Signalled)\<rparr>)
          (fresh_state\<lparr>pid_file := Some (''4242'' @ [CHR 0x0A])\<rparr>)) = Returned \<and>
   pid_file (snd (stop (quiet_host\<lparr>os_kill := (\<lambda>pid. Signalled)\<rparr>)
          (fresh_state\<lparr>pid_file := Some (''4242'' @ [CHR 0x0A])\<rparr>))) = None \<and>
   events (snd (stop (quiet_host\<lparr>os_kill := (\<lambda>pid. Signalled)\<rparr>)
          (fresh_state\<lparr>pid_file := Some (''4242'' @ [CHR 0x0A])\<rparr>))) = [Os_kill 4242 SIGTERM] \<and>
   fst (stop quiet_host (fresh_state\<lparr>pid_file := Some (''4242'' @ [CHR 0x0A])\<rparr>)) = Returned \<and>
   pid_file (snd (stop quiet_host (fresh_state\<lparr>pid_file := Some (''4242'' @ [CHR 0x0A])\<rparr>)))
     = None"
proof -
  have p1: "py_int (strip ''not a pid'') = None"
    by (simp add: py_int_def strip_def isspace_def int_digits_def isdigit_def)
  have p2: "py_int (strip (''4242'' @ [CHR 0x0A])) = Some 4242"
    by (simp add: py_int_def strip_def isspace_def int_digits_def isdigit_def digit_val_def)
  show ?thesis
    using p1 p2
      stop_outcomes [where s = fresh_state and h = quiet_host]
      stop_outcomes [where s = "fresh_state\<lparr>pid_file := Some ''not a pid''\<rparr>"
        and content = "''not a pid''" and h = quiet_host]
      stop_outcomes [where s = "fresh_state\<lparr>pid_file := Some (''4242'' @ [CHR 0x0A])\<rparr>"
        and content = "''4242'' @ [CHR 0x0A]" and pid = 4242
        and h = "quiet_host\<lparr>os_kill := (\<lambda>pid. Signalled)\<rparr>"]
      stop_outcomes [where s = "fresh_state\<lparr>pid_file := Some (''4242'' @ [CHR 0x0A])\<rparr>"
        and content = "''4242'' @ [CHR 0x0A]" and pid = 4242 and h = quiet_host]
    by (simp add: fresh_state_def quiet_host_def)
qed

text \<open>
  C9: once \<open>stop\<close> has parsed an integer PID from the record file, the file is gone
  when the call ends, whatever the signal call does; in particular when \<open>os.kill\<close>
  raises something other than ProcessLookupError, where the call prints the error, still
  runs the \<open>finally\<close> clause, and exits with status 1.
\<close>

theorem stop_always_removes_parsed_record:
  "pid_file s = Some content \<and> py_int (strip content) = Some pid \<longrightarrow>
     pid_file (snd (stop h s)) = None \<and>
     (os_kill h pid = OtherKillError e \<longrightarrow>
        fst (stop h s) = SysExit 1 \<and>
        events (snd (stop h s)) = events s @ [Os_kill pid SIGTERM] \<and>
        console (snd (stop h s)) = console s @ [RULE ''[bold]Stopping Server[/bold]'',
          ERROR (''Failed to stop server: '' @ e),
          SUCCESS ''Server stopped and PID file removed.''])"
  by (simp add: stop_def Let_def print_defs split: kill_result.splits)

text \<open>C9 on a record holding \<open>1\<close> where the signal call raises PermissionError.\<close>

theorem stop_always_removes_parsed_record_witness:
  "py_int (strip ''1'') = Some 1 \<and>
   pid_file (snd (stop (quiet_host\<lparr>os_kill := (\<lambda>pid. OtherKillError ''PermissionError'')\<rparr>)
                    (fresh_state\<lparr>pid_file := Some ''1''\<rparr>))) = None \<and>
   fst (stop (quiet_host\<lparr>os_kill := (\<lambda>pid. OtherKillError ''PermissionError'')\<rparr>)
             (fresh_state\<lparr>pid_file := Some ''1''\<rparr>)) = SysExit 1"
proof -
  have p: "py_int (strip ''1'') = Some 1"
    by (simp add: py_int_def strip_def isspace_def int_digits_def isdigit_def digit_val_def)
  show ?thesis
    using p stop_always_removes_parsed_record
        [where s = "fresh_state\<lparr>pid_file := Some ''1''\<rparr>" and content = "''1''" and pid = 1
           and h = "quiet_host\<lparr>os_kill := (\<lambda>pid. OtherKillError ''PermissionError'')\<rparr>"
           and e = "''PermissionError''"]
    by (simp add: fresh_state_def quiet_host_def)
qed

section \<open>start: the claims\<close>

text \<open>
  C5: \<open>start\<close> with both \<open>foreground\<close> and \<open>auto\<close> set exits with status 1 at once: it
  prints the heading and the error, makes no outside call (no setup, no launch, no
  signal), and leaves the record file and the log file as they were.
\<close>

theorem start_foreground_auto_rejected:
  "start True True h s
     = (SysExit 1,
        s\<lparr>console := console s @ [RULE ''[bold]Starting Server[/bold]'',
             ERROR ''The --foreground and --auto flags cannot be used together.'']\<rparr>) \<and>
   pid_file (snd (start True True h s)) = pid_file s \<and>
   log_file (snd (start True True h s)) = log_file s \<and>
   events (snd (start True True h s)) = events s"
  by (simp add: start_def print_defs emit_def)

text \<open>C5 on a fresh directory without a virtual environment.\<close>

theorem start_foreground_auto_rejected_witness:
  "fst (start True True (quiet_host\<lparr>venv_isdir := False\<rparr>) fresh_state) = SysExit 1 \<and>
   events (snd (start True True (quiet_host\<lparr>venv_isdir := False\<rparr>) fresh_state)) = [] \<and>
   pid_file (snd (start True True (quiet_host\<lparr>venv_isdir := False\<rparr>) fresh_state)) = None \<and>
   log_file (snd (start True True (quiet_host\<lparr>venv_isdir := False\<rparr>) fresh_state)) = None"
  using start_foreground_auto_rejected
          [where h = "quiet_host\<lparr>venv_isdir := False\<rparr>" and s = fresh_state]
  by (simp add: fresh_state_def)





text \<open>
  C10: a background start that fails at the spawn step exits with status 1 and leaves
  no record file, yet the log file exists and is empty afterwards, whatever it held
  before: it was opened (created or cut to length zero) before \<open>Popen\<close> was tried, the
  last outside call made.
\<close>

theorem start_background_spawn_failure:
  assumes "fst (is_server_really_running h s) = Inr False"
    and "fst (setup_environment h s) = Returned"
    and "subprocess_Popen h command = Inl e"
  shows "fst (start False auto h s) = SysExit 1 \<and>
         pid_file (snd (start False auto h s)) = None \<and>
         log_file (snd (start False auto h s)) = Some [] \<and>
         last (events (snd (start False auto h s))) = Subprocess_Popen command \<and>
         last (console (snd (start False auto h s)))
           = ERROR (''Failed to start server in background: '' @ e)"
proof -
  obtain s2 where no_record: "pid_file s2 = None"
    and st: "start False auto h s =
           (case run_background h s2 of
              (Returned, s3) \<Rightarrow> if auto then launch_client h s3 else (Returned, s3)
            | (r, s3) \<Rightarrow> (r, s3))"
    using start_background_launch [OF assms(1,2), of auto] by blast
  have rb: "run_background h s2 =
      (SysExit 1,
       print_error (''Failed to start server in background: '' @ e)
         (record_event (Subprocess_Popen command)
            ((print_info ''Starting server in background...'' s2)\<lparr>log_file := Some []\<rparr>)))"
    using assms(3) by (simp add: run_background_def Let_def)
  show ?thesis
    using no_record by (simp add: st rb print_defs)
qed

text \<open>C10 on a directory with an old log, where \<open>Popen\<close> does not find the server
  program: the old content is gone.\<close>

theorem start_background_spawn_failure_witness:
  "fst (is_server_really_running
          (quiet_host\<lparr>subprocess_Popen := (\<lambda>argv. Inl ''[Errno 2] No such file or directory'')\<rparr>)
          (fresh_state\<lparr>log_file := Some ''INFO: old run''\<rparr>)) = Inr False \<and>
   fst (setup_environment
          (quiet_host\<lparr>subprocess_Popen := (\<lambda>argv. Inl ''[Errno 2] No such file or directory'')\<rparr>)
          (fresh_state\<lparr>log_file := Some ''INFO: old run''\<rparr>)) = Returned \<and>
   fst (start False False
          (quiet_host\<lparr>subprocess_Popen := (\<lambda>argv. Inl ''[Errno 2] No such file or directory'')\<rparr>)
          (fresh_state\<lparr>log_file := Some ''INFO: old run''\<rparr>)) = SysExit 1 \<and>
   pid_file (snd (start False False
          (quiet_host\<lparr>subprocess_Popen := (\<lambda>argv. Inl ''[Errno 2] No such file or directory'')\<rparr>)
          (fresh_state\<lparr>log_file := Some ''INFO: old run''\<rparr>))) = None \<and>
   log_file (snd (start False False
          (quiet_host\<lparr>subprocess_Popen := (\<lambda>argv. Inl ''[Errno 2] No such file or directory'')\<rparr>)
          (fresh_state\<lparr>log_file := Some ''INFO: old run''\<rparr>))) = Some []"
proof -
  let ?h = "quiet_host\<lparr>subprocess_Popen :=
              (\<lambda>argv. Inl ''[Errno 2] No such file or directory'')\<rparr>"
  let ?s = "fresh_state\<lparr>log_file := Some ''INFO: old run''\<rparr>"
  have a: "fst (is_server_really_running ?h ?s) = Inr False"
    by (simp add: is_running_answer fresh_state_def)
  have b: "fst (setup_environment ?h ?s) = Returned"
    by (simp add: setup_environment_def install_dependencies_def Let_def quiet_host_def)
  have c: "subprocess_Popen ?h command = Inl ''[Errno 2] No such file or directory''"
    by simp
  show ?thesis
    using a b start_background_spawn_failure [OF a b c, of False] by simp
qed


section \<open>status: the claims\<close>

text \<open>
  C4 at an input where the code departs from it. The record holds \<open>99999999999\<close>, an
  invalid PID value that parses as an integer. The probe raises OverflowError, which the
  handler of the liveness check does not name, although its comment reads "PID file is
  stale or corrupted" and \<open>stop\<close> guards the same call against every exception. So the
  exception leaves \<open>status\<close>: nothing reports Stopped and the record file stays. For the
  failures that the handler names, \<open>status_stopped\<close> above shows what C4 says.
\<close>

theorem status_probe_error_escapes:
  "py_int (strip ''99999999999'') = Some 99999999999 \<and>
   fst (status c_int_host (fresh_state\<lparr>pid_file := Some ''99999999999''\<rparr>))
     = Raised ''OverflowError'' \<and>
   pid_file (snd (status c_int_host (fresh_state\<lparr>pid_file := Some ''99999999999''\<rparr>)))
     = Some ''99999999999'' \<and>
   INFO ''Stopped''
     \<notin> set (console (snd (status c_int_host (fresh_state\<lparr>pid_file := Some ''99999999999''\<rparr>))))"
proof -
  have p: "py_int (strip ''99999999999'') = Some 99999999999"
    by (simp add: py_int_def strip_def isspace_def int_digits_def isdigit_def digit_val_def)
  show ?thesis
    using p
    by (simp add: status_def is_server_really_running_def Let_def print_defs emit_def
        record_event_def c_int_host_def fresh_state_def)
qed

text \<open>
  C7 at an input where the code departs from it: the settings file of \<open>settings_host\<close>.
  The key that \<open>ccp init\<close> stored is shown as \<open>OPENAI_API_KEY=''sk-...qrs''\<close>: the loop
  masks the raw text after \<open>=\<close>, the quotes of the file included, and puts quotes of its
  own around the result, so three characters of each end of the key show instead of four,
  between two pairs of quotes. The line without \<open>=\<close> is not shown as it is: the
  console raises MarkupError on its closing tag, the handler for ValueError does not
  catch that, and the exception ends \<open>status\<close> before the line of the big model is
  read.
\<close>

theorem status_settings_display:
  "status settings_host fresh_state
     = (Raised ''MarkupError'',
        fresh_state\<lparr>console :=
          [RULE ''[bold]Claude Code Plus Status[/bold]'',
           PLAIN ''[bold]Server Status[/bold]'',
           INFO ''Stopped'',
           PLAIN (CHR 0x0A # ''[bold]Configuration[/bold]''),
           SHOWN (''OPENAI_API_KEY='' @ [CHR 0x27, CHR 0x27] @ ''sk-...qrs''
                  @ [CHR 0x27, CHR 0x27])]\<rparr>)"
proof -
  define l1 where "l1 = ''OPENAI_API_KEY='' @ [CHR 0x27] @ ''sk-0123456789abcdefghijklmnopqrs''
             @ [CHR 0x27, CHR 0x0A]"
  define l2 where "l2 = ''see [/bold] note'' @ [CHR 0x0A]"
  define l3 where "l3 = ''BIG_MODEL=gpt-4.1'' @ [CHR 0x0A]"
  define masked where "masked = ''OPENAI_API_KEY='' @ [CHR 0x27, CHR 0x27] @ ''sk-...qrs''
                 @ [CHR 0x27, CHR 0x27]"
  have settings: "dotenv_file settings_host = Some (l1 @ l2 @ l3)"
    by (simp add: settings_host_def l1_def l2_def l3_def)
  have lines: "readlines (l1 @ l2 @ l3) = [l1, l2, l3]"
    by (simp add: readlines_def l1_def l2_def l3_def)
  have key_line: "display_line l1 = Some masked"
    by (simp add: display_line_def strip_def isspace_def startswith_def split_eq1_def
        l1_def masked_def)
  have note_line: "display_line l2 = Some ''see [/bold] note''"
    by (simp add: display_line_def strip_def isspace_def startswith_def split_eq1_def l2_def)
  have written: "rich_render settings_host masked = Rendered masked"
    by (simp add: settings_host_def masked_def)
  have raised: "rich_render settings_host ''see [/bold] note'' = MarkupError"
    by (simp add: settings_host_def)
  have loop: "print_lines settings_host [l1, l2, l3] s
      = (Raised ''MarkupError'', emit (SHOWN masked) s)" for s
    by (simp add: key_line note_line written raised)
  have conf: "show_configuration settings_host s
      = (Raised ''MarkupError'',
         emit (SHOWN masked) (emit (PLAIN (CHR 0x0A # ''[bold]Configuration[/bold]'')) s))"
    for s
    by (simp add: show_configuration_def Let_def settings lines loop console_print_def
        del: print_lines.simps)
  have stopped: "status settings_host fresh_state
      = show_configuration settings_host
          (emit (INFO ''Stopped'')
             (emit (PLAIN ''[bold]Server Status[/bold]'')
                (emit (RULE ''[bold]Claude Code Plus Status[/bold]'') fresh_state)))"
    by (simp add: status_def Let_def is_server_really_running_def print_defs fresh_state_def)
  show ?thesis
    unfolding stopped conf by (simp add: emit_def fresh_state_def masked_def)
qed

section \<open>start twice: the claim\<close>

text \<open>
  C6: let a default (background, no \<open>auto\<close>) start return normally, which it does only
  after launching the server and recording its PID. Let a second default start follow
  with the record file untouched (no stop in between) and the launched process still
  alive. Then the second call prints that the server is already running and its status;
  it leaves the record file and the log file as they are, and the only outside calls it
  makes are the two zero-signal liveness probes (one by \<open>start\<close>, one by \<open>status\<close>):
  no setup, no launch, no signal to the process. So setup and launch happen once over
  the two calls. The second call exits with status 0 when the display of the
  configuration returns; an exception of that display is the way the call ends
  otherwise.
\<close>

theorem start_twice_launches_once:
  assumes "start False False h s = (Returned, s1)"
    and "subprocess_Popen h command = Inr pid"
    and "pid_file s2 = pid_file s1"
    and "os_kill h2 pid = Signalled"
  shows "fst (start False False h2 s2)
           = (case fst (show_configuration h2 s2) of Returned \<Rightarrow> SysExit 0 | r \<Rightarrow> r) \<and>
         pid_file (snd (start False False h2 s2)) = pid_file s2 \<and>
         log_file (snd (start False False h2 s2)) = log_file s2 \<and>
         events (snd (start False False h2 s2)) = events s2 @ [Os_kill pid 0, Os_kill pid 0] \<and>
         (\<exists>out. console (snd (start False False h2 s2)) = console s2 @ out
            \<and> INFO ''Server is already running. Displaying status:'' \<in> set out
            \<and> SUCCESS (''Running (PID: '' @ str_int pid @ '')'') \<in> set out)"
proof -
  have "pid_file s1 = Some (str_int pid)"
    using start_returned_record [OF assms(1)] assms(2) by auto
  then have rec: "pid_file s2 = Some (str_int pid)"
    using assms(3) by simp
  show ?thesis
    using start_already_running [OF rec read_back_pid assms(4)] by simp
qed

text \<open>C6 on a fresh directory: the first start launches the process 4242, which is alive
  when the second start runs, and the second start exits with status 0.\<close>

theorem start_twice_launches_once_witness:
  "start False False quiet_host fresh_state
     = (Returned, snd (start False False quiet_host fresh_state)) \<and>
   subprocess_Popen quiet_host command = Inr 4242 \<and>
   os_kill live_host 4242 = Signalled \<and>
   fst (start False False live_host (snd (start False False quiet_host fresh_state)))
     = SysExit 0 \<and>
   pid_file (snd (start False False live_host (snd (start False False quiet_host fresh_state))))
     = pid_file (snd (start False False quiet_host fresh_state)) \<and>
   log_file (snd (start False False live_host (snd (start False False quiet_host fresh_state))))
     = log_file (snd (start False False quiet_host fresh_state)) \<and>
   events (snd (start False False live_host (snd (start False False quiet_host fresh_state))))
     = events (snd (start False False quiet_host fresh_state)) @ [Os_kill 4242 0, Os_kill 4242 0]"
proof -
  have a: "fst (is_server_really_running quiet_host fresh_state) = Inr False"
    by (simp add: is_running_answer fresh_state_def)
  have b: "fst (setup_environment quiet_host fresh_state) = Returned"
    by (simp add: setup_environment_def install_dependencies_def Let_def quiet_host_def)
  have c: "subprocess_Popen quiet_host command = Inr 4242"
    by (simp add: quiet_host_def)
  have d: "os_kill live_host 4242 = Signalled"
    by (simp add: live_host_def)
  have e: "fst (show_configuration live_host s) = Returned" for s
    by (simp add: show_configuration_def Let_def live_host_def quiet_host_def)
  obtain t2 where st: "start False False quiet_host fresh_state =
           (case run_background quiet_host t2 of
              (Returned, s3) \<Rightarrow> if False then launch_client quiet_host s3 else (Returned, s3)
            | (r, s3) \<Rightarrow> (r, s3))"
    using start_background_launch [OF a b, of False] by blast
  obtain r3 t3 where rb: "run_background quiet_host t2 = (r3, t3)"
    by (cases "run_background quiet_host t2")
  have "r3 = Returned"
    using run_background_success(1) [OF c, of t2] rb by simp
  then have "fst (start False False quiet_host fresh_state) = Returned"
    using st rb by simp
  then have first: "start False False quiet_host fresh_state
      = (Returned, snd (start False False quiet_host fresh_state))"
    by (simp add: prod_eq_iff)
  show ?thesis
    using first c d e start_twice_launches_once [OF first c refl d] by simp
qed


end
